theory Spec2Isabelle
  imports Main "HOL-Library.Word"
begin

section \<open>The post job of \<open>src/main.ts\<close>\<close>

text \<open>
  The program is one linear pipeline: fetch a camera image, ask an inference service for a
  caption, shorten the caption, and publish image and caption as a post.  Every function of
  \<open>main.ts\<close> is a function here, under its own name.  What the program does to the outside
  (requests, file operations, console output, \<open>process.exit\<close>) is recorded in a trace of
  events held in the state, and what the outside answers is read from an environment.

  JavaScript strings are modelled as \<^typ>\<open>string\<close>: one list element stands for one code
  unit, so \<open>length\<close> is JavaScript's \<open>.length\<close> and \<open>take n\<close> is \<open>.slice(0, n)\<close>.
\<close>

subsection \<open>Errors and outcomes\<close>

text \<open>
  A JavaScript error object is its class and its message.  A call of the program has one of
  five outcomes:
  \<^item> \<open>Return\<close>: it returns a value (its promise resolves);
  \<^item> \<open>Throw\<close>: it throws (the promise of an \<open>async\<close> function or of a promise executor
    rejects), which a \<open>catch\<close> block around the \<open>await\<close> intercepts;
  \<^item> \<open>Exit\<close>: \<open>process.exit\<close> ends the process, which no \<open>catch\<close> block intercepts;
  \<^item> \<open>Uncaught\<close>: an exception is thrown inside an event callback, outside every promise
    and every \<open>try\<close>: the process ends with exit status 1;
  \<^item> \<open>Pending\<close>: the promise never settles, so the code after the \<open>await\<close> never runs.
\<close>

datatype error = Error string | TypeError string | DOMException string

datatype 'a outcome = Return 'a | Throw error | Exit nat | Uncaught error | Pending

type_synonym byte = "8 word"

type_synonym bytes = "byte list"

subsection \<open>Data exchanged with the services\<close>

text \<open>
  The values the program inspects dynamically (\<open>typeof\<close>, \<open>in\<close>, \<open>!== null\<close> at line 71):
  \<open>undefined\<close>, \<open>null\<close>, strings, and objects as lists of properties.
\<close>

datatype jsval = JUndefined | JNull | JStr string | JObj "(string \<times> jsval) list"

text \<open>The \<open>IncomingMessage\<close> handed to the callback of \<open>https.get\<close>.\<close>

record response =
  statusCode :: nat
  headers_location :: "string option"
  payload :: bytes

text \<open>
  What \<open>https.get\<close> does when it does not deliver a whole response:
  \<^item> \<open>Throws\<close>: the call itself throws, before any request is sent (for instance when
    its argument is not an absolute URL, or names a protocol other than \<open>https:\<close>);
  \<^item> \<open>Emits\<close>: the request emits \<open>'error'\<close> before a response arrives (the listener of
    lines 27 and 33 is called);
  \<^item> \<open>CutShort response n\<close>: the response callback is called with \<open>response\<close>, and the
    connection closes after \<open>n\<close> bytes of the body: the response stream never ends, and with
    no listener on the response no error is emitted either.
\<close>

datatype get_failure = Throws error | Emits error | CutShort response nat

text \<open>
  The response of the inference client, as the program reads it: \<open>response.status\<close>,
  \<open>response.error\<close> and \<open>response.body.choices[0].message.content\<close>.  \<open>error\<close> is the
  property the program looks for on the response object itself (\<open>None\<close>: the object has
  no such property); \<open>choices\<close> is \<open>None\<close> when the body has no \<open>choices\<close> property;
  \<open>content\<close> is \<open>None\<close> for \<open>null\<close>.  \<open>body_error\<close> is the property \<open>error\<close> of the
  body, where the service puts its error object when it answers with a status other than
  200; the program never reads it.
\<close>

record chat_message =
  content :: "string option"

record chat_choice =
  message :: chat_message

record chat_body =
  choices :: "chat_choice list option"
  body_error :: "jsval option"

record chat_response =
  status :: string
  error :: "jsval option"
  body :: chat_body

datatype content_part = TextPart string | ImageUrlPart string string

datatype chat_turn = SystemTurn string | UserTurn "content_part list"

record chat_request =
  messages :: "chat_turn list"
  model :: string

datatype blob_ref = BlobRef string

record aspect_ratio =
  width :: nat
  height :: nat

record embed_image =
  alt :: string
  image :: blob_ref
  aspectRatio :: aspect_ratio

text \<open>The constructor stands for \<open>$type: 'app.bsky.embed.images'\<close>.\<close>

datatype embed = EmbedImages "embed_image list"

record post =
  post_text :: string
  embed :: embed
  createdAt :: string

subsection \<open>Environment, events and state\<close>

text \<open>
  The environment holds the three variables read from \<open>process.env\<close> (\<open>None\<close> when unset)
  and the answer of every external call: \<open>Inl\<close> or \<open>Some\<close> is the way the call fails.
  \<open>https_get u = Inr r\<close> says that the request to \<open>u\<close> is answered by \<open>r\<close> and that the body
  of \<open>r\<close> arrives whole.  \<open>write_error dest = Some (err, n)\<close> says that the write stream to \<open>dest\<close> emits
  \<open>'error'\<close> with \<open>err\<close> after \<open>n\<close> bytes have reached the file.  \<open>clock k\<close> is the time
  (milliseconds) seen by the \<open>k\<close>-th \<open>new Date()\<close> of the run.
\<close>

record env =
  token :: "string option"
  bskyHandle :: "string option"
  bskyPassword :: "string option"
  https_get :: "string \<Rightarrow> get_failure + response"
  write_error :: "string \<Rightarrow> (error \<times> nat) option"
  chat_completions :: "chat_request \<Rightarrow> error + chat_response"
  agent_login :: "string \<Rightarrow> string \<Rightarrow> error option"
  agent_uploadBlob :: "bytes \<Rightarrow> string \<Rightarrow> error + blob_ref"
  agent_post :: "post \<Rightarrow> error option"
  clock :: "nat \<Rightarrow> int"
  toISOString :: "int \<Rightarrow> string"

text \<open>
  The events of a run.  \<open>HttpsGet u\<close> records that \<open>https.get\<close> is called on \<open>u\<close>, whatever
  comes of the call; the other events are named after the call they record.
\<close>

datatype logarg = Str string | Err error

datatype event =
    MkdirSync string
  | HttpsGet string
  | CreateWriteStream string
  | Unlink string
  | ReadFileSync string
  | ChatCompletionsPost chat_request
  | Login string string
  | UploadBlob bytes string
  | Post post
  | ConsoleLog "logarg list"
  | ConsoleError "logarg list"
  | ProcessExit nat

text \<open>
  A stored file has its bytes and a read permission: opening an existing file for writing
  truncates it and keeps its mode, so a file that exists unreadable stays unreadable.
\<close>

record stored_file =
  contents :: bytes
  readable :: bool

record world =
  files :: "string \<rightharpoonup> stored_file"
  dirs :: "string set"
  dates :: nat
  trace :: "event list"

subsection \<open>Module constants (lines 12 to 19)\<close>

definition modelName :: string where
  "modelName = ''gpt-4o''"

definition todayFolder :: string where
  "todayFolder = ''today''"

definition imageFileName :: string where
  "imageFileName = ''todays_image.jpg''"

definition imageUrl :: string where
  "imageUrl = ''https://webkamera.atlas.vegvesen.no/public/kamera?id=0229009_1''"

subsection \<open>Language and library operations\<close>

text \<open>
  Truthiness of a value that is a string or \<open>undefined\<close>: \<open>undefined\<close> and the empty string
  are falsy.  \<open>string_of\<close> is the string a template or a library call makes of it.
\<close>

definition truthy :: "string option \<Rightarrow> bool" where
  "truthy v = (case v of None \<Rightarrow> False | Some s \<Rightarrow> s \<noteq> [])"

definition string_of :: "string option \<Rightarrow> string" where
  "string_of v = (case v of None \<Rightarrow> ''undefined'' | Some s \<Rightarrow> s)"

text \<open>The decimal numeral a template literal makes of a status code.\<close>

function decimal :: "nat \<Rightarrow> string" where
  "decimal n =
     (if n < 10 then [''0123456789'' ! n]
      else decimal (n div 10) @ [''0123456789'' ! (n mod 10)])"
  by pat_completeness auto
termination
  by (relation "measure id") auto

declare decimal.simps [simp del]

text \<open>\<open>path.join\<close> of a directory name and a file name, both plain segments.\<close>

definition path_join :: "string \<Rightarrow> string \<Rightarrow> string" where
  "path_join dir name = dir @ ''/'' @ name"

definition emit :: "event \<Rightarrow> world \<Rightarrow> world" where
  "emit ev w = w\<lparr>trace := trace w @ [ev]\<rparr>"

definition existsSync :: "world \<Rightarrow> string \<Rightarrow> bool" where
  "existsSync w p \<longleftrightarrow> p \<in> dirs w \<or> files w p \<noteq> None"

definition mkdirSync :: "string \<Rightarrow> world \<Rightarrow> world" where
  "mkdirSync p w = emit (MkdirSync p) (w\<lparr>dirs := insert p (dirs w)\<rparr>)"

definition readFileSync :: "string \<Rightarrow> world \<Rightarrow> (error + bytes) \<times> world" where
  "readFileSync p w =
     (case files w p of
        None \<Rightarrow> Inl (Error ''ENOENT: no such file or directory'')
      | Some f \<Rightarrow> if readable f then Inr (contents f)
                  else Inl (Error ''EACCES: permission denied''),
      emit (ReadFileSync p) w)"

text \<open>\<open>fs.createWriteStream(dest)\<close> creates the file or truncates it.\<close>

definition createWriteStream :: "string \<Rightarrow> world \<Rightarrow> world" where
  "createWriteStream dest w =
     emit (CreateWriteStream dest)
       (w\<lparr>files := (files w)(dest \<mapsto>
            \<lparr>contents = [],
             readable = (case files w dest of None \<Rightarrow> True | Some f \<Rightarrow> readable f)\<rparr>)\<rparr>)"

text \<open>\<open>response.pipe(file)\<close>: the bytes that reach the file are appended to it.\<close>

definition pipe :: "bytes \<Rightarrow> string \<Rightarrow> world \<Rightarrow> world" where
  "pipe chunk dest w =
     (case files w dest of
        None \<Rightarrow> w
      | Some f \<Rightarrow> w\<lparr>files := (files w)(dest \<mapsto> f\<lparr>contents := contents f @ chunk\<rparr>)\<rparr>)"

text \<open>
  \<open>fs.unlink(dest, callback)\<close> removes the name.  The callback of line 44 takes no
  argument, so the program never looks at an error of the unlink itself; the unlink is
  taken to succeed.
\<close>

definition unlink :: "string \<Rightarrow> world \<Rightarrow> world" where
  "unlink dest w = emit (Unlink dest) (w\<lparr>files := (files w)(dest := None)\<rparr>)"

definition new_Date :: "env \<Rightarrow> world \<Rightarrow> int \<times> world" where
  "new_Date e w = (clock e (dates w), w\<lparr>dates := Suc (dates w)\<rparr>)"

subsection \<open>Base64: \<open>Buffer.toString('base64')\<close> and \<open>atob\<close>\<close>

text \<open>
  Both are functions of the platform.  The encoder is the padded Base64 of RFC 4648: three
  bytes become four sextets, a rest of one or two bytes becomes two or three sextets and
  \<open>=\<close> fills the group.  \<open>atob\<close> is the forgiving decoder of the web platform: it drops
  ASCII whitespace, drops one or two trailing \<open>=\<close> when the length is a multiple of four,
  then fails on a length of 1 modulo 4 and on any character outside the alphabet.
\<close>

definition base64_alphabet :: string where
  "base64_alphabet = ''ABCDEFGHIJKLMNOPQRSTUVWXYZabcdefghijklmnopqrstuvwxyz0123456789+/''"

fun index_of :: "'a \<Rightarrow> 'a list \<Rightarrow> nat option" where
  "index_of x [] = None"
| "index_of x (y # ys) = (if x = y then Some 0 else map_option Suc (index_of x ys))"

fun sextets :: "nat list \<Rightarrow> nat list" where
  "sextets (a # b # c # rest) =
     [a div 4, (a mod 4) * 16 + b div 16, (b mod 16) * 4 + c div 64, c mod 64] @ sextets rest"
| "sextets [a, b] = [a div 4, (a mod 4) * 16 + b div 16, (b mod 16) * 4]"
| "sextets [a] = [a div 4, (a mod 4) * 16]"
| "sextets [] = []"

definition toString_base64 :: "bytes \<Rightarrow> string" where
  "toString_base64 buf =
     map (\<lambda>s. base64_alphabet ! s) (sextets (map unat buf)) @
     replicate ((3 - length buf mod 3) mod 3) CHR ''=''"

definition ascii_whitespace :: "char \<Rightarrow> bool" where
  "ascii_whitespace c \<longleftrightarrow> c \<in> set [CHR 0x09, CHR 0x0A, CHR 0x0C, CHR 0x0D, CHR 0x20]"

definition strip_padding :: "string \<Rightarrow> string" where
  "strip_padding d =
     (case rev d of
        c1 # c2 # r \<Rightarrow> if c1 = CHR ''='' \<and> c2 = CHR ''='' then rev r
                      else if c1 = CHR ''='' then rev (c2 # r) else d
      | [c1] \<Rightarrow> if c1 = CHR ''='' then [] else d
      | [] \<Rightarrow> d)"

fun octets :: "nat list \<Rightarrow> nat list" where
  "octets (s1 # s2 # s3 # s4 # rest) =
     [s1 * 4 + s2 div 16, (s2 mod 16) * 16 + s3 div 4, (s3 mod 4) * 64 + s4] @ octets rest"
| "octets [s1, s2, s3] = [s1 * 4 + s2 div 16, (s2 mod 16) * 16 + s3 div 4]"
| "octets [s1, s2] = [s1 * 4 + s2 div 16]"
| "octets [s1] = []"
| "octets [] = []"

definition atob :: "string \<Rightarrow> error + string" where
  "atob data =
     (let d1 = filter (\<lambda>c. \<not> ascii_whitespace c) data;
          d2 = (if length d1 mod 4 = 0 then strip_padding d1 else d1)
      in if length d2 mod 4 = 1 then Inl (DOMException ''InvalidCharacterError'')
         else case those (map (\<lambda>c. index_of c base64_alphabet) d2) of
                None \<Rightarrow> Inl (DOMException ''InvalidCharacterError'')
              | Some ss \<Rightarrow> Inr (map char_of (octets ss)))"

text \<open>\<open>String.prototype.split\<close> with a one-character separator.\<close>

fun split_on :: "char \<Rightarrow> string \<Rightarrow> string list" where
  "split_on sep [] = [[]]"
| "split_on sep (c # cs) =
     (if c = sep then [] # split_on sep cs
      else case split_on sep cs of
             p # ps \<Rightarrow> (c # p) # ps
           | [] \<Rightarrow> [[c]])"

subsection \<open>\<open>saveImageToFile\<close> and \<open>downloadImage\<close> (lines 21 to 46)\<close>

text \<open>
  \<^verbatim>\<open>const file = fs.createWriteStream(dest);
  response.pipe(file);
  file.on('finish', () => { file.close(resolve); });
  file.on('error', (err) => { fs.unlink(dest, () => reject(err)); });\<close>

  Only the file settles the promise: \<open>'finish'\<close>, which follows the end of the piped
  response, resolves it, and the file's \<open>'error'\<close> rejects it.  \<open>saveArriving\<close> is this
  function applied to a response of which the bytes \<open>arriving\<close> reach the program and which
  ends (\<open>ends\<close>) or stops without ending.  In the second case nothing settles the promise.
  The state returned with the outcome is the state in which \<open>resolve\<close> or \<open>reject\<close> is
  called, or the state in which the run is left waiting.
\<close>

definition saveArriving :: "env \<Rightarrow> bytes \<Rightarrow> bool \<Rightarrow> string \<Rightarrow> world \<Rightarrow> unit outcome \<times> world" where
  "saveArriving e arriving ends dest w =
     (let w1 = createWriteStream dest w
      in case write_error e dest of
           None \<Rightarrow> if ends then (Return (), pipe arriving dest w1)
                   else (Pending, pipe arriving dest w1)
         | Some (err, n) \<Rightarrow> (Throw err, unlink dest (pipe (take n arriving) dest w1)))"

text \<open>\<open>saveImageToFile\<close> on a response whose body arrives whole.\<close>

definition saveImageToFile :: "env \<Rightarrow> response \<Rightarrow> string \<Rightarrow> world \<Rightarrow> unit outcome \<times> world" where
  "saveImageToFile e response dest w = saveArriving e (payload response) True dest w"

text \<open>\<open>saveImageToFile\<close> on a response whose body stops after \<open>n\<close> bytes.\<close>

definition saveImageToFile_cut :: "env \<Rightarrow> response \<Rightarrow> nat \<Rightarrow> string \<Rightarrow> world \<Rightarrow> unit outcome \<times> world" where
  "saveImageToFile_cut e response n dest w =
     saveArriving e (take n (payload response)) False dest w"

text \<open>
  \<^verbatim>\<open>return new Promise((resolve, reject) => {
      https.get(url, (response) => {
          if (response.statusCode === 302 && response.headers.location) {
              https.get(response.headers.location, (redirectedResponse) => {
                  saveImageToFile(redirectedResponse, dest, resolve, reject);
              }).on('error', reject);
          } else if (response.statusCode === 200) {
              saveImageToFile(response, dest, resolve, reject);
          } else {
              reject(new Error(`Failed to download image. Status Code: ${response.statusCode}`));
          }
      }).on('error', reject);
  });\<close>

  \<open>onResponse\<close> is the callback of the first request, \<open>cutoff\<close> telling whether and where the
  body of its response stops.  The follow-up \<open>https.get\<close> is called inside this callback,
  which runs from the event loop and not inside the promise executor: when that call
  throws, nothing catches the exception.  The first \<open>https.get\<close> is called inside the
  executor, which turns an exception into a rejection.
\<close>

definition onResponse :: "env \<Rightarrow> response \<Rightarrow> nat option \<Rightarrow> string \<Rightarrow> world \<Rightarrow> unit outcome \<times> world" where
  "onResponse e response cutoff dest w1 =
     (if statusCode response = 302 \<and> truthy (headers_location response) then
        (let location = string_of (headers_location response);
             w2 = emit (HttpsGet location) w1
         in case https_get e location of
              Inl (Throws err) \<Rightarrow> (Uncaught err, w2)
            | Inl (Emits err) \<Rightarrow> (Throw err, w2)
            | Inl (CutShort redirectedResponse n) \<Rightarrow>
                saveImageToFile_cut e redirectedResponse n dest w2
            | Inr redirectedResponse \<Rightarrow> saveImageToFile e redirectedResponse dest w2)
      else if statusCode response = 200 then
        (case cutoff of
           None \<Rightarrow> saveImageToFile e response dest w1
         | Some n \<Rightarrow> saveImageToFile_cut e response n dest w1)
      else (Throw (Error (''Failed to download image. Status Code: '' @
                            decimal (statusCode response))), w1))"

definition downloadImage :: "env \<Rightarrow> string \<Rightarrow> string \<Rightarrow> world \<Rightarrow> unit outcome \<times> world" where
  "downloadImage e url dest w =
     (let w1 = emit (HttpsGet url) w
      in case https_get e url of
           Inl (Throws err) \<Rightarrow> (Throw err, w1)
         | Inl (Emits err) \<Rightarrow> (Throw err, w1)
         | Inl (CutShort response n) \<Rightarrow> onResponse e response (Some n) dest w1
         | Inr response \<Rightarrow> onResponse e response None dest w1)"

subsection \<open>\<open>getImageDataUrl\<close> and \<open>convertDataURIToUint8Array\<close> (lines 85 to 104)\<close>

text \<open>
  \<^verbatim>\<open>try {
      const imageBuffer = fs.readFileSync(imageFile);
      const imageBase64 = imageBuffer.toString('base64');
      return `data:image/${imageFormat};base64,${imageBase64}`;
  } catch {
      console.error(`Could not read '${imageFile}'.`);
      process.exit(1);
  }\<close>
\<close>

definition getImageDataUrl :: "string \<Rightarrow> string \<Rightarrow> world \<Rightarrow> string outcome \<times> world" where
  "getImageDataUrl imageFile imageFormat w =
     (case readFileSync imageFile w of
        (Inr imageBuffer, w1) \<Rightarrow>
          (Return (''data:image/'' @ imageFormat @ '';base64,'' @ toString_base64 imageBuffer), w1)
      | (Inl _, w1) \<Rightarrow>
          (Exit 1,
           emit (ProcessExit 1)
             (emit (ConsoleError [Str (''Could not read '' @ [CHR 0x27] @ imageFile @
                                        [CHR 0x27] @ ''.'')]) w1)))"

text \<open>
  \<open>dataURI.split(',')[1]\<close> is \<open>undefined\<close> when the string has no comma, and \<open>atob\<close> then
  decodes the string \<open>undefined\<close>.  The loop over \<open>charCodeAt\<close> is the \<open>map\<close>.
\<close>

definition convertDataURIToUint8Array :: "string \<Rightarrow> error + bytes" where
  "convertDataURIToUint8Array dataURI =
     (case (case split_on CHR '','' dataURI of
              _ # b64 # _ \<Rightarrow> atob b64
            | _ \<Rightarrow> atob ''undefined'') of
        Inl err \<Rightarrow> Inl err
      | Inr byteString \<Rightarrow> Inr (map (\<lambda>c. of_nat (of_char c)) byteString))"

subsection \<open>\<open>getImageDescription\<close> (lines 48 to 83)\<close>

definition typeof :: "jsval \<Rightarrow> string" where
  "typeof v =
     (case v of JUndefined \<Rightarrow> ''undefined'' | JNull \<Rightarrow> ''object''
              | JStr _ \<Rightarrow> ''string'' | JObj _ \<Rightarrow> ''object'')"

definition has_property :: "string \<Rightarrow> jsval \<Rightarrow> bool" where
  "has_property k v = (case v of JObj kvs \<Rightarrow> map_of kvs k \<noteq> None | _ \<Rightarrow> False)"

definition get_property :: "string \<Rightarrow> jsval \<Rightarrow> jsval" where
  "get_property k v =
     (case v of
        JObj kvs \<Rightarrow> (case map_of kvs k of None \<Rightarrow> JUndefined | Some x \<Rightarrow> x)
      | _ \<Rightarrow> JUndefined)"

text \<open>\<open>new Error(v)\<close>: the message is the string made of \<open>v\<close>, empty for \<open>undefined\<close>.\<close>

definition new_Error :: "jsval \<Rightarrow> error" where
  "new_Error v =
     Error (case v of JUndefined \<Rightarrow> [] | JNull \<Rightarrow> ''null'' | JStr s \<Rightarrow> s
                    | JObj _ \<Rightarrow> ''[object Object]'')"

definition response_error :: "chat_response \<Rightarrow> jsval" where
  "response_error response = (case error response of None \<Rightarrow> JUndefined | Some v \<Rightarrow> v)"

text \<open>
  The condition of line 71:
  \<^verbatim>\<open>response.status !== "200" && 'error' in response && typeof response.error === 'object'
    && response.error !== null && 'message' in response.error\<close>
\<close>

definition carriesErrorMessage :: "chat_response \<Rightarrow> bool" where
  "carriesErrorMessage response \<longleftrightarrow>
     status response \<noteq> ''200'' \<and> error response \<noteq> None \<and>
     typeof (response_error response) = ''object'' \<and> response_error response \<noteq> JNull \<and>
     has_property ''message'' (response_error response)"

text \<open>
  Lines 71 to 82, the handling of the response:
  \<^verbatim>\<open>if (<line 71>) {
      throw new Error((response.error as { message: string }).message);
  }
  if ('choices' in response.body) {
      if ('choices' in response.body && response.body.choices[0].message.content) {
          return response.body.choices[0].message.content;
      }
  } else {
      throw new Error("Unexpected response format");
  }
  return "No description available.";\<close>
  \<open>choices[0]\<close> of an empty array is \<open>undefined\<close>, and reading \<open>.message\<close> of it
  throws a \<open>TypeError\<close>.
\<close>

definition handleResponse :: "chat_response \<Rightarrow> string outcome" where
  "handleResponse response =
     (if carriesErrorMessage response
      then Throw (new_Error (get_property ''message'' (response_error response)))
      else case choices (body response) of
             Some cs \<Rightarrow>
               (case cs of
                  [] \<Rightarrow> Throw (TypeError (''Cannot read properties of undefined (reading '' @
                                          [CHR 0x27] @ ''message'' @ [CHR 0x27] @ '')''))
                | c # _ \<Rightarrow>
                    if truthy (content (message c)) then Return (string_of (content (message c)))
                    else Return ''No description available.'')
           | None \<Rightarrow> Throw (Error ''Unexpected response format''))"

definition chatRequest :: "string \<Rightarrow> chat_request" where
  "chatRequest imageDataUrl =
     \<lparr>messages =
        [SystemTurn ''You are a helpful assistant that describes images in detail.'',
         UserTurn [TextPart ''Describe this image in less than 200 characters:'',
                   ImageUrlPart imageDataUrl ''low'']],
      model = modelName\<rparr>"

definition getImageDescription :: "env \<Rightarrow> world \<Rightarrow> string outcome \<times> world" where
  "getImageDescription e w =
     (if \<not> truthy (token e) then (Throw (Error ''Azure API token is not defined''), w)
      else case getImageDataUrl (path_join todayFolder imageFileName) ''jpg'' w of
             (Exit c, w1) \<Rightarrow> (Exit c, w1)
           | (Throw err, w1) \<Rightarrow> (Throw err, w1)
           | (Uncaught err, w1) \<Rightarrow> (Uncaught err, w1)
           | (Pending, w1) \<Rightarrow> (Pending, w1)
           | (Return imageDataUrl, w1) \<Rightarrow>
               (let request = chatRequest imageDataUrl;
                    w2 = emit (ChatCompletionsPost request) w1
                in case chat_completions e request of
                     Inl err \<Rightarrow> (Throw err, w2)
                   | Inr response \<Rightarrow> (handleResponse response, w2)))"

subsection \<open>\<open>getPostText\<close> (lines 106 to 169) and \<open>main\<close> (lines 171 to 178)\<close>

text \<open>
  Lines 136 to 140:
  \<^verbatim>\<open>if (imageDescription.length > maxGraphemes) {
      imageDescription = imageDescription.slice(0, maxGraphemes) + '...';
  }\<close>
\<close>

definition maxGraphemes :: nat where
  "maxGraphemes = 300"

definition truncateDescription :: "string \<Rightarrow> string" where
  "truncateDescription imageDescription =
     (if length imageDescription > maxGraphemes
      then take maxGraphemes imageDescription @ ''...''
      else imageDescription)"

text \<open>The argument of \<open>agent.post\<close>, lines 150 to 166.\<close>

definition postRecord :: "string \<Rightarrow> blob_ref \<Rightarrow> string \<Rightarrow> post" where
  "postRecord imageDescription blob now =
     \<lparr>post_text = imageDescription,
      embed = EmbedImages
        [\<lparr>alt = imageDescription, image = blob,
          aspectRatio = \<lparr>width = 1000, height = 500\<rparr>\<rparr>],
      createdAt = now\<rparr>"

text \<open>Lines 142 to 168 of \<open>getPostText\<close>: login, upload of the blob, creation of the post.\<close>

definition publish :: "env \<Rightarrow> string \<Rightarrow> string \<Rightarrow> world \<Rightarrow> string outcome \<times> world" where
  "publish e imageDest imageDescription w =
     (let identifier = string_of (bskyHandle e);
          password = string_of (bskyPassword e);
          w1 = emit (Login identifier password) w
      in case agent_login e identifier password of
           Some err \<Rightarrow> (Throw err, w1)
         | None \<Rightarrow>
             (case getImageDataUrl imageDest ''jpg'' w1 of
                (Exit c, w2) \<Rightarrow> (Exit c, w2)
              | (Throw err, w2) \<Rightarrow> (Throw err, w2)
              | (Uncaught err, w2) \<Rightarrow> (Uncaught err, w2)
              | (Pending, w2) \<Rightarrow> (Pending, w2)
              | (Return imageDataUrl, w2) \<Rightarrow>
                  (case convertDataURIToUint8Array imageDataUrl of
                     Inl err \<Rightarrow> (Throw err, w2)
                   | Inr uint8Array \<Rightarrow>
                       (let w3 = emit (UploadBlob uint8Array ''image/jpeg'') w2
                        in case agent_uploadBlob e uint8Array ''image/jpeg'' of
                             Inl err \<Rightarrow> (Throw err, w3)
                           | Inr blob \<Rightarrow>
                               (let (now, w4) = new_Date e w3;
                                    record = postRecord imageDescription blob (toISOString e now);
                                    w5 = emit (Post record) w4
                                in case agent_post e record of
                                     Some err \<Rightarrow> (Throw err, w5)
                                   | None \<Rightarrow>
                                       (Return (imageDescription @ [CHR 0x0A] @ ''![Image]('' @
                                                imageUrl @ '')''), w5))))))"

text \<open>Lines 107 to 110: the folder is created when nothing of that name exists.\<close>

definition ensureFolder :: "world \<Rightarrow> world" where
  "ensureFolder w = (if \<not> existsSync w todayFolder then mkdirSync todayFolder w else w)"

text \<open>
  The guard of lines 112 to 114 comes first.  Each of the two \<open>try\<close> blocks ends, in its
  \<open>catch\<close>, with a \<open>return\<close> of the placeholder:
  \<^verbatim>\<open>try {
      await downloadImage(imageUrl, imageDest);
      console.log(`Image downloaded to: ${imageDest}`);
  } catch {
      console.error("Error downloading the image.");
      return "Error downloading the image.";
  }\<close>
\<close>

definition getPostText :: "env \<Rightarrow> world \<Rightarrow> string outcome \<times> world" where
  "getPostText e w =
     (let w1 = ensureFolder w
      in if \<not> truthy (bskyHandle e) \<or> \<not> truthy (bskyPassword e)
         then (Throw (Error ''Bluesky handle or password is not defined''), w1)
         else
           (let imageDest = path_join todayFolder imageFileName
            in case downloadImage e imageUrl imageDest w1 of
                 (Throw _, w2) \<Rightarrow>
                   (Return ''Error downloading the image.'',
                    emit (ConsoleError [Str ''Error downloading the image.'']) w2)
               | (Exit c, w2) \<Rightarrow> (Exit c, w2)
               | (Uncaught err, w2) \<Rightarrow> (Uncaught err, w2)
               | (Pending, w2) \<Rightarrow> (Pending, w2)
               | (Return _, w2) \<Rightarrow>
                   (let w3 = emit (ConsoleLog [Str (''Image downloaded to: '' @ imageDest)]) w2
                    in case getImageDescription e w3 of
                         (Throw _, w4) \<Rightarrow>
                           (Return ''Error getting image description.'',
                            emit (ConsoleError [Str ''Error getting image description.'']) w4)
                       | (Exit c, w4) \<Rightarrow> (Exit c, w4)
                       | (Uncaught err, w4) \<Rightarrow> (Uncaught err, w4)
                       | (Pending, w4) \<Rightarrow> (Pending, w4)
                       | (Return described, w4) \<Rightarrow>
                           (let imageDescription =
                                  (if described \<noteq> [] then described
                                   else ''No description available.'');
                                w5 = emit (ConsoleLog [Str ''Image description received: '',
                                                       Str imageDescription]) w4
                            in publish e imageDest (truncateDescription imageDescription) w5))))"

text \<open>
  \<^verbatim>\<open>try {
      const text = await getPostText();
      console.log(`[${new Date().toISOString()}] Posted: "${text}"`);
  } catch (error) {
      console.error("Error posting to Bluesky:", error);
  }\<close>
\<close>

definition main :: "env \<Rightarrow> world \<Rightarrow> unit outcome \<times> world" where
  "main e w =
     (case getPostText e w of
        (Return posted, w1) \<Rightarrow>
          (let (now, w2) = new_Date e w1
           in (Return (),
               emit (ConsoleLog [Str (''['' @ toISOString e now @ ''] Posted: '' @ [CHR 0x22] @
                                      posted @ [CHR 0x22])]) w2))
      | (Throw err, w1) \<Rightarrow>
          (Return (), emit (ConsoleError [Str ''Error posting to Bluesky:'', Err err]) w1)
      | (Exit c, w1) \<Rightarrow> (Exit c, w1)
      | (Uncaught err, w1) \<Rightarrow> (Uncaught err, w1)
      | (Pending, w1) \<Rightarrow> (Pending, w1))"

text \<open>
  The exit status of the process: 0 when \<open>main\<close> completes, the argument of
  \<open>process.exit\<close> when that was called, 1 for a rejection nobody handles and for an
  exception nobody catches.  A run left waiting on a promise that never settles sets no
  status of its own: when nothing is left to wait for, the process ends with status 0.
\<close>

definition exit_status :: "unit outcome \<Rightarrow> nat" where
  "exit_status r =
     (case r of Return _ \<Rightarrow> 0 | Throw _ \<Rightarrow> 1 | Exit c \<Rightarrow> c | Uncaught _ \<Rightarrow> 1
              | Pending \<Rightarrow> 0)"

subsection \<open>Reading a trace\<close>

definition gets :: "event list \<Rightarrow> string list" where
  "gets evs = concat (map (\<lambda>ev. case ev of HttpsGet u \<Rightarrow> [u] | _ \<Rightarrow> []) evs)"

definition posts :: "event list \<Rightarrow> post list" where
  "posts evs = concat (map (\<lambda>ev. case ev of Post p \<Rightarrow> [p] | _ \<Rightarrow> []) evs)"

definition uploads :: "event list \<Rightarrow> bytes list" where
  "uploads evs = concat (map (\<lambda>ev. case ev of UploadBlob b _ \<Rightarrow> [b] | _ \<Rightarrow> []) evs)"

definition is_publication :: "event \<Rightarrow> bool" where
  "is_publication ev =
     (case ev of Login _ _ \<Rightarrow> True | UploadBlob _ _ \<Rightarrow> True | Post _ \<Rightarrow> True | _ \<Rightarrow> False)"

definition is_acquisition :: "event \<Rightarrow> bool" where
  "is_acquisition ev =
     (case ev of HttpsGet _ \<Rightarrow> True | CreateWriteStream _ \<Rightarrow> True
               | ChatCompletionsPost _ \<Rightarrow> True | _ \<Rightarrow> False)"

text \<open>The success class of HTTP status codes, 2xx.\<close>

definition is_success_status :: "nat \<Rightarrow> bool" where
  "is_success_status code \<longleftrightarrow> 200 \<le> code \<and> code < 300"

subsection \<open>Example runs\<close>

text \<open>
  A run in which every call succeeds: the camera answers 200 with the one byte \<open>X\<close>, the
  inference service answers with one choice, the posting service accepts everything.
\<close>

definition env_ok :: env where
  "env_ok =
     \<lparr>token = Some ''key'', bskyHandle = Some ''handle'', bskyPassword = Some ''secret'',
      https_get = (\<lambda>u. Inr \<lparr>statusCode = 200, headers_location = None, payload = [88]\<rparr>),
      write_error = (\<lambda>p. None),
      chat_completions = (\<lambda>r. Inr \<lparr>status = ''200'', error = None,
         body = \<lparr>choices = Some [\<lparr>message = \<lparr>content = Some ''A cat on a bridge.''\<rparr>\<rparr>],
                 body_error = None\<rparr>\<rparr>),
      agent_login = (\<lambda>i p. None),
      agent_uploadBlob = (\<lambda>b enc. Inr (BlobRef ''cid'')),
      agent_post = (\<lambda>p. None),
      clock = (\<lambda>k. 1000 + int k),
      toISOString = (\<lambda>t. if t = 1000 then ''1970-01-01T00:00:01.000Z'' else ''later'')\<rparr>"

definition world0 :: world where
  "world0 = \<lparr>files = Map.empty, dirs = {}, dates = 0, trace = []\<rparr>"

definition respond :: "nat \<Rightarrow> string \<Rightarrow> get_failure + response" where
  "respond code u = Inr \<lparr>statusCode = code, headers_location = None, payload = [88]\<rparr>"

definition redirect :: "string \<Rightarrow> get_failure + response" where
  "redirect u =
     (if u = imageUrl
      then Inr \<lparr>statusCode = 302, headers_location = Some ''https://cdn.example/a.jpg'',
                payload = []\<rparr>
      else Inr \<lparr>statusCode = 200, headers_location = None, payload = [88]\<rparr>)"

text \<open>
  A redirect to a relative location: the follow-up \<open>https.get\<close> throws on it.
\<close>

definition relative_redirect :: "string \<Rightarrow> get_failure + response" where
  "relative_redirect u =
     (if u = imageUrl
      then Inr \<lparr>statusCode = 302, headers_location = Some ''/images/a.jpg'', payload = []\<rparr>
      else Inl (Throws (TypeError ''Invalid URL'')))"

text \<open>A response with status 200 whose body of three bytes stops after the first.\<close>

definition cut_short :: "string \<Rightarrow> get_failure + response" where
  "cut_short u =
     Inl (CutShort \<lparr>statusCode = 200, headers_location = None, payload = [88, 89, 90]\<rparr> 1)"

text \<open>
  The reply of the inference service to a request it refuses: status 429, no \<open>error\<close>
  property on the response object, the error object in the body.
\<close>

definition rate_limited :: chat_response where
  "rate_limited =
     \<lparr>status = ''429'', error = None,
      body = \<lparr>choices = None,
              body_error = Some (JObj [(''code'', JStr ''RateLimitReached''),
                                       (''message'', JStr ''rate limited'')])\<rparr>\<rparr>"

definition choices_response :: "chat_choice list option \<Rightarrow> chat_response" where
  "choices_response cs =
     \<lparr>status = ''200'', error = None, body = \<lparr>choices = cs, body_error = None\<rparr>\<rparr>"

definition choice_response :: "string option \<Rightarrow> chat_response" where
  "choice_response c = choices_response (Some [\<lparr>message = \<lparr>content = c\<rparr>\<rparr>])"

text \<open>The folder with the image file in it, readable and unreadable.\<close>

definition stored_image :: world where
  "stored_image =
     world0\<lparr>files := [path_join todayFolder imageFileName \<mapsto>
                         \<lparr>contents = [88, 0, 255], readable = True\<rparr>],
            dirs := {todayFolder}\<rparr>"

definition unreadable_image :: world where
  "unreadable_image =
     world0\<lparr>files := [path_join todayFolder imageFileName \<mapsto>
                         \<lparr>contents = [1], readable = False\<rparr>],
            dirs := {todayFolder}\<rparr>"

section \<open>Properties\<close>

subsection \<open>State bookkeeping\<close>

lemma emit_fields [simp]:
  "trace (emit ev w) = trace w @ [ev]"
  "files (emit ev w) = files w"
  "dirs (emit ev w) = dirs w"
  "dates (emit ev w) = dates w"
  by (simp_all add: emit_def)

lemma createWriteStream_fields [simp]:
  "trace (createWriteStream dest w) = trace w @ [CreateWriteStream dest]"
  "dirs (createWriteStream dest w) = dirs w"
  "dates (createWriteStream dest w) = dates w"
  "map_option contents (files (createWriteStream dest w) dest) = Some []"
  "p \<noteq> dest \<Longrightarrow> files (createWriteStream dest w) p = files w p"
  by (simp_all add: createWriteStream_def)

lemma createWriteStream_readable:
  "files (createWriteStream dest w) dest =
     Some \<lparr>contents = [], readable = (case files w dest of None \<Rightarrow> True | Some f \<Rightarrow> readable f)\<rparr>"
  by (simp add: createWriteStream_def)

lemma pipe_fields [simp]:
  "trace (pipe chunk dest w) = trace w"
  "dirs (pipe chunk dest w) = dirs w"
  "dates (pipe chunk dest w) = dates w"
  "p \<noteq> dest \<Longrightarrow> files (pipe chunk dest w) p = files w p"
  by (simp_all add: pipe_def split: option.splits)

lemma pipe_file:
  "files w dest = Some f \<Longrightarrow>
   files (pipe chunk dest w) dest = Some (f\<lparr>contents := contents f @ chunk\<rparr>)"
  by (simp add: pipe_def)

lemma unlink_fields [simp]:
  "trace (unlink dest w) = trace w @ [Unlink dest]"
  "dirs (unlink dest w) = dirs w"
  "dates (unlink dest w) = dates w"
  "files (unlink dest w) dest = None"
  "p \<noteq> dest \<Longrightarrow> files (unlink dest w) p = files w p"
  by (simp_all add: unlink_def)

lemma gets_simps [simp]:
  "gets [] = []"
  "gets (xs @ ys) = gets xs @ gets ys"
  "gets (HttpsGet u # evs) = u # gets evs"
  "gets (CreateWriteStream p # evs) = gets evs"
  "gets (Unlink p # evs) = gets evs"
  by (simp_all add: gets_def)

lemma readFileSync_world [simp]: "snd (readFileSync p w) = emit (ReadFileSync p) w"
  by (simp add: readFileSync_def)

lemma getImageDataUrl_readable:
  assumes "files w p = Some f" and "readable f"
  shows "getImageDataUrl p fmt w =
           (Return (''data:image/'' @ fmt @ '';base64,'' @ toString_base64 (contents f)),
            emit (ReadFileSync p) w)"
  using assms by (simp add: getImageDataUrl_def readFileSync_def)

lemma getImageDataUrl_cases:
  "getImageDataUrl p fmt w =
     (case files w p of
        None \<Rightarrow> (Exit 1, emit (ProcessExit 1)
                   (emit (ConsoleError [Str (''Could not read '' @ [CHR 0x27] @ p @ [CHR 0x27] @ ''.'')])
                      (emit (ReadFileSync p) w)))
      | Some f \<Rightarrow>
          if readable f
          then (Return (''data:image/'' @ fmt @ '';base64,'' @ toString_base64 (contents f)),
                emit (ReadFileSync p) w)
          else (Exit 1, emit (ProcessExit 1)
                   (emit (ConsoleError [Str (''Could not read '' @ [CHR 0x27] @ p @ [CHR 0x27] @ ''.'')])
                      (emit (ReadFileSync p) w))))"
  by (simp add: getImageDataUrl_def readFileSync_def split: option.splits)

lemma uploads_simps [simp]:
  "uploads [] = []"
  "uploads (xs @ ys) = uploads xs @ uploads ys"
  "uploads (UploadBlob b enc # evs) = b # uploads evs"
  "uploads (Login i p # evs) = uploads evs"
  "uploads (ReadFileSync f # evs) = uploads evs"
  "uploads (Post r # evs) = uploads evs"
  by (simp_all add: uploads_def)

subsection \<open>Base64 decoding inverts encoding\<close>

lemma index_of_nth: "distinct xs \<Longrightarrow> i < length xs \<Longrightarrow> index_of (xs ! i) xs = Some i"
proof (induction xs arbitrary: i)
  case Nil
  then show ?case by simp
next
  case (Cons x xs)
  then show ?case by (cases i) auto
qed

lemma distinct_alphabet: "distinct base64_alphabet"
  by (simp add: base64_alphabet_def)

lemma length_alphabet: "length base64_alphabet = 64"
  by (simp add: base64_alphabet_def)

lemma sextets_bound: "\<forall>a\<in>set bs. a < 256 \<Longrightarrow> \<forall>s\<in>set (sextets bs). s < 64"
  by (induction bs rule: sextets.induct) auto

lemma octets_sextets: "\<forall>a\<in>set bs. a < 256 \<Longrightarrow> octets (sextets bs) = bs"
  by (induction bs rule: sextets.induct) auto

lemma Suc3_div: "(3 + n) div 3 = Suc (n div 3)" for n :: nat
  by presburger

lemma Suc3_mod: "(3 + n) mod 3 = n mod 3" for n :: nat
  by presburger

lemma length_sextets:
  "length (sextets bs) =
     4 * (length bs div 3) + (if length bs mod 3 = 0 then 0 else length bs mod 3 + 1)"
  by (induction bs rule: sextets.induct) (simp_all add: Suc3_div Suc3_mod)

lemma length_encoded_mod4:
  "(length (sextets bs) + (3 - length bs mod 3) mod 3) mod 4 = 0"
proof -
  have "length bs mod 3 = 0 \<or> length bs mod 3 = 1 \<or> length bs mod 3 = 2" by presburger
  then show ?thesis by (auto simp: length_sextets)
qed

lemma length_sextets_mod4: "length (sextets bs) mod 4 \<noteq> 1"
proof -
  have "length bs mod 3 = 0 \<or> length bs mod 3 = 1 \<or> length bs mod 3 = 2" by presburger
  then show ?thesis by (auto simp: length_sextets)
qed

lemma alphabet_no_pad: "CHR ''='' \<notin> set base64_alphabet"
  by (simp add: base64_alphabet_def)

lemma alphabet_no_comma: "CHR '','' \<notin> set base64_alphabet"
  by (simp add: base64_alphabet_def)

lemma alphabet_no_space: "c \<in> set base64_alphabet \<Longrightarrow> \<not> ascii_whitespace c"
  by (auto simp: base64_alphabet_def ascii_whitespace_def)

lemma strip_padding_id: "CHR ''='' \<notin> set cs \<Longrightarrow> strip_padding cs = cs"
proof -
  assume a: "CHR ''='' \<notin> set cs"
  then have "CHR ''='' \<notin> set (rev cs)" by simp
  then show ?thesis
    by (cases "rev cs") (auto simp: strip_padding_def split: list.splits)
qed

lemma strip_padding_one:
  "CHR ''='' \<notin> set cs \<Longrightarrow> strip_padding (cs @ [CHR ''='']) = cs"
proof -
  assume a: "CHR ''='' \<notin> set cs"
  then have "CHR ''='' \<notin> set (rev cs)" by simp
  then show ?thesis
    by (cases "rev cs") (auto simp: strip_padding_def)
qed

lemma strip_padding_two:
  "strip_padding (cs @ [CHR ''='', CHR ''='']) = cs"
  by (simp add: strip_padding_def)

lemma strip_padding_encoded:
  assumes "CHR ''='' \<notin> set cs" and "k \<le> 2"
  shows "strip_padding (cs @ replicate k CHR ''='') = cs"
proof -
  from assms(2) have "k = 0 \<or> k = 1 \<or> k = 2" by arith
  then show ?thesis
    using assms(1) strip_padding_id [of cs] strip_padding_one [of cs] strip_padding_two [of cs]
    by (auto simp: numeral_2_eq_2)
qed


lemma those_index_of_alphabet:
  "\<forall>s\<in>set ss. s < 64 \<Longrightarrow>
   those (map (\<lambda>c. index_of c base64_alphabet) (map (\<lambda>s. base64_alphabet ! s) ss)) = Some ss"
  by (induction ss) (simp_all add: index_of_nth distinct_alphabet length_alphabet)

lemma encoded_chars:
  "\<forall>s\<in>set ss. s < 64 \<Longrightarrow> set (map (\<lambda>s. base64_alphabet ! s) ss) \<subseteq> set base64_alphabet"
  by (auto simp: length_alphabet)

lemma unat_bytes_bound: "\<forall>a\<in>set (map unat (buf :: bytes)). a < 256"
proof
  fix a assume "a \<in> set (map unat buf)"
  then obtain b :: byte where "a = unat b" by auto
  moreover have "unat b < 2 ^ LENGTH(8)" by (rule unsigned_less)
  ultimately show "a < 256" by simp
qed

lemma filter_whitespace_encoded:
  "filter (\<lambda>c. \<not> ascii_whitespace c) (toString_base64 buf) = toString_base64 buf"
proof -
  have "\<forall>s\<in>set (sextets (map unat buf)). s < 64"
    by (rule sextets_bound [OF unat_bytes_bound])
  then have "set (map (\<lambda>s. base64_alphabet ! s) (sextets (map unat buf))) \<subseteq> set base64_alphabet"
    by (rule encoded_chars)
  moreover have "\<not> ascii_whitespace CHR ''=''"
    by (simp add: ascii_whitespace_def)
  ultimately have "\<forall>c\<in>set (toString_base64 buf). \<not> ascii_whitespace c"
    using alphabet_no_space by (auto simp: toString_base64_def)
  then show ?thesis by (simp add: filter_id_conv)
qed

lemma atob_toString_base64:
  "atob (toString_base64 buf) = Inr (map char_of (map unat buf))"
proof -
  let ?ss = "sextets (map unat buf)"
  let ?cs = "map (\<lambda>s. base64_alphabet ! s) ?ss"
  let ?k = "(3 - length buf mod 3) mod 3"
  have bound: "\<forall>s\<in>set ?ss. s < 64"
    by (rule sextets_bound [OF unat_bytes_bound])
  have len: "length (toString_base64 buf) mod 4 = 0"
    using length_encoded_mod4 [of "map unat buf"] by (simp add: toString_base64_def)
  have nopad: "CHR ''='' \<notin> set ?cs"
    using encoded_chars [OF bound] alphabet_no_pad by blast
  have "?k \<le> 2" by arith
  then have strip: "strip_padding (toString_base64 buf) = ?cs"
    unfolding toString_base64_def by (rule strip_padding_encoded [OF nopad])
  have len2: "length ?cs mod 4 \<noteq> 1"
    using length_sextets_mod4 [of "map unat buf"] by simp
  have idx: "those (map (\<lambda>c. index_of c base64_alphabet) ?cs) = Some ?ss"
    by (rule those_index_of_alphabet [OF bound])
  have oct: "octets ?ss = map unat buf"
    by (rule octets_sextets [OF unat_bytes_bound])
  show ?thesis
    unfolding atob_def filter_whitespace_encoded Let_def
    using len len2 by (simp add: strip idx oct del: map_map)
qed

lemma split_on_no_sep: "sep \<notin> set cs \<Longrightarrow> split_on sep cs = [cs]"
  by (induction cs) auto

lemma split_on_first:
  "sep \<notin> set p \<Longrightarrow> split_on sep (p @ sep # q) = p # split_on sep q"
  by (induction p) auto

lemma toString_base64_no_comma: "CHR '','' \<notin> set (toString_base64 buf)"
proof -
  have "\<forall>s\<in>set (sextets (map unat buf)). s < 64"
    by (rule sextets_bound [OF unat_bytes_bound])
  then have "set (map (\<lambda>s. base64_alphabet ! s) (sextets (map unat buf))) \<subseteq> set base64_alphabet"
    by (rule encoded_chars)
  then show ?thesis
    using alphabet_no_comma by (auto simp: toString_base64_def)
qed

lemma byte_of_char_of_unat: "(of_nat (unat b mod 256) :: byte) = b"
proof -
  have "unat b < 2 ^ LENGTH(8)" by (rule unsigned_less)
  then have "unat b mod 256 = unat b" by simp
  then show ?thesis by simp
qed

lemma bytes_of_binary_string:
  "map (\<lambda>c. of_nat (of_char c)) (map char_of (map unat buf)) = (buf :: bytes)"
  by (induction buf) (simp_all add: byte_of_char_of_unat)

lemma convert_dataUrl:
  assumes "CHR '','' \<notin> set imageFormat"
  shows "convertDataURIToUint8Array
           (''data:image/'' @ imageFormat @ '';base64,'' @ toString_base64 buf) = Inr buf"
proof -
  let ?p = "''data:image/'' @ imageFormat @ '';base64''"
  have p: "CHR '','' \<notin> set ?p" using assms by simp
  have "''data:image/'' @ imageFormat @ '';base64,'' @ toString_base64 buf =
          ?p @ CHR '','' # toString_base64 buf"
    by simp
  then have "split_on CHR '','' (''data:image/'' @ imageFormat @ '';base64,'' @ toString_base64 buf) =
               [?p, toString_base64 buf]"
    using split_on_first [OF p, of "toString_base64 buf"]
          split_on_no_sep [OF toString_base64_no_comma, of buf]
    by simp
  then show ?thesis
    by (simp add: convertDataURIToUint8Array_def atob_toString_base64 bytes_of_binary_string
        del: map_map)
qed

subsection \<open>Saving and downloading\<close>

lemma saveImageToFile_finish:
  assumes "write_error e dest = None"
  shows "fst (saveImageToFile e r dest w) = Return ()"
    and "trace (snd (saveImageToFile e r dest w)) = trace w @ [CreateWriteStream dest]"
    and "map_option contents (files (snd (saveImageToFile e r dest w)) dest) = Some (payload r)"
  using assms
  by (simp_all add: saveImageToFile_def saveArriving_def Let_def
      pipe_file [OF createWriteStream_readable])

lemma saveImageToFile_error:
  assumes "write_error e dest = Some (err, n)"
  shows "fst (saveImageToFile e r dest w) = Throw err"
    and "trace (snd (saveImageToFile e r dest w)) = trace w @ [CreateWriteStream dest, Unlink dest]"
    and "files (snd (saveImageToFile e r dest w)) dest = None"
  using assms by (simp_all add: saveImageToFile_def saveArriving_def Let_def)

lemma gets_saveImageToFile:
  "gets (trace (snd (saveImageToFile e r dest w))) = gets (trace w)"
  "gets (trace (snd (saveImageToFile_cut e r n dest w))) = gets (trace w)"
  by (simp_all add: saveImageToFile_def saveImageToFile_cut_def saveArriving_def Let_def
      split: option.splits)


lemma downloadImage_redirect:
  assumes "https_get e url = Inr r" and "statusCode r = 302" and "truthy (headers_location r)"
  shows "downloadImage e url dest w =
           (case https_get e (string_of (headers_location r)) of
              Inl (Throws err) \<Rightarrow>
                (Uncaught err,
                 emit (HttpsGet (string_of (headers_location r))) (emit (HttpsGet url) w))
            | Inl (Emits err) \<Rightarrow>
                (Throw err,
                 emit (HttpsGet (string_of (headers_location r))) (emit (HttpsGet url) w))
            | Inl (CutShort r2 n) \<Rightarrow>
                saveImageToFile_cut e r2 n dest
                  (emit (HttpsGet (string_of (headers_location r))) (emit (HttpsGet url) w))
            | Inr r2 \<Rightarrow>
                saveImageToFile e r2 dest
                  (emit (HttpsGet (string_of (headers_location r))) (emit (HttpsGet url) w)))"
  using assms by (simp add: downloadImage_def onResponse_def Let_def)

lemma downloadImage_200:
  assumes "https_get e url = Inr r" and "statusCode r = 200"
  shows "downloadImage e url dest w = saveImageToFile e r dest (emit (HttpsGet url) w)"
  using assms by (simp add: downloadImage_def onResponse_def Let_def)

lemma downloadImage_other:
  assumes "https_get e url = Inr r" and "statusCode r \<noteq> 200"
    and "\<not> (statusCode r = 302 \<and> truthy (headers_location r))"
  shows "downloadImage e url dest w =
           (Throw (Error (''Failed to download image. Status Code: '' @ decimal (statusCode r))),
            emit (HttpsGet url) w)"
  using assms by (auto simp add: downloadImage_def onResponse_def Let_def)

lemma decimal_404: "decimal 404 = ''404''"
  by (simp add: decimal.simps)

lemma decimal_203: "decimal 203 = ''203''"
  by (simp add: decimal.simps)

subsection \<open>Reading the image back and publishing\<close>

lemma jpg_no_comma: "CHR '','' \<notin> set ''jpg''"
  by simp

lemma convert_jpg:
  "convertDataURIToUint8Array (''data:image/jpg;base64,'' @ toString_base64 buf) = Inr buf"
  using convert_dataUrl [OF jpg_no_comma, of buf] by simp

lemmas convert_jpg_cons = convert_jpg [simplified]

lemma publish_after_login:
  assumes "files w dest = Some f" and "readable f"
    and "agent_login e (string_of (bskyHandle e)) (string_of (bskyPassword e)) = None"
  shows "publish e dest D w =
     (let w2 = emit (ReadFileSync dest)
                 (emit (Login (string_of (bskyHandle e)) (string_of (bskyPassword e))) w);
          w3 = emit (UploadBlob (contents f) ''image/jpeg'') w2
      in case agent_uploadBlob e (contents f) ''image/jpeg'' of
           Inl err \<Rightarrow> (Throw err, w3)
         | Inr blob \<Rightarrow>
             (let record = postRecord D blob (toISOString e (clock e (dates w)));
                  w5 = emit (Post record) (w3\<lparr>dates := Suc (dates w)\<rparr>)
              in case agent_post e record of
                   Some err \<Rightarrow> (Throw err, w5)
                 | None \<Rightarrow> (Return (D @ [CHR 0x0A] @ ''![Image]('' @ imageUrl @ '')''), w5)))"
proof -
  have "getImageDataUrl dest ''jpg''
          (emit (Login (string_of (bskyHandle e)) (string_of (bskyPassword e))) w) =
        (Return (''data:image/jpg;base64,'' @ toString_base64 (contents f)),
         emit (ReadFileSync dest)
           (emit (Login (string_of (bskyHandle e)) (string_of (bskyPassword e))) w))"
    using getImageDataUrl_readable [of "emit (Login (string_of (bskyHandle e))
              (string_of (bskyPassword e))) w" dest f "''jpg''"] assms(1,2)
    by simp
  then show ?thesis
    using assms(3)
    by (simp add: publish_def Let_def convert_jpg_cons new_Date_def
        split: sum.splits option.splits)
qed

lemma getImageDescription_response:
  assumes "truthy (token e)"
    and "files w (path_join todayFolder imageFileName) = Some f" and "readable f"
    and "chat_completions e
           (chatRequest (''data:image/jpg;base64,'' @ toString_base64 (contents f))) = Inr r"
  shows "getImageDescription e w =
           (handleResponse r,
            emit (ChatCompletionsPost
                    (chatRequest (''data:image/jpg;base64,'' @ toString_base64 (contents f))))
              (emit (ReadFileSync (path_join todayFolder imageFileName)) w))"
  using assms(1,4) getImageDataUrl_readable [OF assms(2,3), of "''jpg''"]
  by (simp add: getImageDescription_def Let_def)

subsection \<open>What each step adds to the trace\<close>

lemma posts_simps [simp]:
  "posts [] = []"
  "posts (xs @ ys) = posts xs @ posts ys"
  "posts (ev # evs) = (case ev of Post p \<Rightarrow> [p] | _ \<Rightarrow> []) @ posts evs"
  by (simp_all add: posts_def)

lemma ensureFolder_fields [simp]:
  "files (ensureFolder w) = files w"
  "dates (ensureFolder w) = dates w"
  "filter is_publication (trace (ensureFolder w)) = filter is_publication (trace w)"
  "filter is_acquisition (trace (ensureFolder w)) = filter is_acquisition (trace w)"
  "posts (trace (ensureFolder w)) = posts (trace w)"
  by (simp_all add: ensureFolder_def mkdirSync_def is_publication_def is_acquisition_def)

lemma saveArriving_quiet [simp]:
  "filter is_publication (trace (snd (saveArriving e bs ends dest w))) =
     filter is_publication (trace w)"
  "posts (trace (snd (saveArriving e bs ends dest w))) = posts (trace w)"
  "dates (snd (saveArriving e bs ends dest w)) = dates w"
  "fst (saveArriving e bs ends dest w) \<noteq> Exit c"
  "fst (saveArriving e bs ends dest w) \<noteq> Uncaught err"
  by (simp_all add: saveArriving_def Let_def is_publication_def split: option.splits)

lemma downloadImage_uncaught:
  assumes "downloadImage e url dest w = (Uncaught err, w')"
  shows "\<exists>r loc. (https_get e url = Inr r \<or> (\<exists>n. https_get e url = Inl (CutShort r n))) \<and>
           statusCode r = 302 \<and> truthy (headers_location r) \<and>
           loc = string_of (headers_location r) \<and>
           https_get e loc = Inl (Throws err) \<and>
           w' = emit (HttpsGet loc) (emit (HttpsGet url) w)"
  using assms saveArriving_quiet(5) [of e _ _ dest _ err]
  by (auto simp add: downloadImage_def onResponse_def saveImageToFile_def
      saveImageToFile_cut_def Let_def prod_eq_iff
      split: sum.splits get_failure.splits option.splits if_splits)

lemma downloadImage_quiet [simp]:
  "filter is_publication (trace (snd (downloadImage e url dest w))) =
     filter is_publication (trace w)"
  "posts (trace (snd (downloadImage e url dest w))) = posts (trace w)"
  "dates (snd (downloadImage e url dest w)) = dates w"
  "fst (downloadImage e url dest w) \<noteq> Exit c"
  by (simp_all add: downloadImage_def onResponse_def saveImageToFile_def
      saveImageToFile_cut_def Let_def is_publication_def
      split: sum.splits get_failure.splits option.splits)

lemma getImageDataUrl_quiet [simp]:
  "filter is_publication (trace (snd (getImageDataUrl p fmt w))) =
     filter is_publication (trace w)"
  "posts (trace (snd (getImageDataUrl p fmt w))) = posts (trace w)"
  "dates (snd (getImageDataUrl p fmt w)) = dates w"
  "files (snd (getImageDataUrl p fmt w)) = files w"
  by (simp_all add: getImageDataUrl_cases is_publication_def split: option.splits)

lemma getImageDataUrl_no_throw [simp]: "fst (getImageDataUrl p fmt w) \<noteq> Throw err"
  by (simp add: getImageDataUrl_cases split: option.splits)

lemma getImageDataUrl_exit:
  assumes "getImageDataUrl p fmt w = (Exit c, w')"
  shows "c = 1 \<and>
         trace w' = trace w @
           [ReadFileSync p,
            ConsoleError [Str (''Could not read '' @ [CHR 0x27] @ p @ [CHR 0x27] @ ''.'')],
            ProcessExit 1]"
  using assms by (auto simp add: getImageDataUrl_cases split: option.splits if_splits)

lemma getImageDescription_quiet [simp]:
  "filter is_publication (trace (snd (getImageDescription e w))) =
     filter is_publication (trace w)"
  "posts (trace (snd (getImageDescription e w))) = posts (trace w)"
  "dates (snd (getImageDescription e w)) = dates w"
  "files (snd (getImageDescription e w)) = files w"
  by (simp_all add: getImageDescription_def getImageDataUrl_cases Let_def is_publication_def
      split: option.splits sum.splits)

lemma getImageDescription_exit:
  assumes "getImageDescription e w = (Exit c, w')"
  shows "c = 1 \<and>
         (\<exists>evs. trace w' = evs @
           [ReadFileSync (path_join todayFolder imageFileName),
            ConsoleError [Str (''Could not read '' @ [CHR 0x27] @
                               path_join todayFolder imageFileName @ [CHR 0x27] @ ''.'')],
            ProcessExit 1])"
  using assms
  by (auto simp add: getImageDescription_def getImageDataUrl_cases Let_def handleResponse_def
      split: option.splits sum.splits if_splits list.splits)

lemma publish_exit:
  assumes "publish e dest D w = (Exit c, w')"
  shows "c = 1 \<and>
         (\<exists>evs. trace w' = evs @
           [ReadFileSync dest,
            ConsoleError [Str (''Could not read '' @ [CHR 0x27] @ dest @ [CHR 0x27] @ ''.'')],
            ProcessExit 1])"
  using assms
  by (auto simp add: publish_def getImageDataUrl_cases Let_def new_Date_def
      split: option.splits sum.splits if_splits)

lemma getImageDescription_settles [simp]:
  "fst (getImageDescription e w) \<noteq> Uncaught err"
  "fst (getImageDescription e w) \<noteq> Pending"
  by (simp_all add: getImageDescription_def getImageDataUrl_cases Let_def handleResponse_def
      split: option.splits sum.splits list.splits)

lemma publish_settles [simp]:
  "fst (publish e dest D w) \<noteq> Uncaught err"
  "fst (publish e dest D w) \<noteq> Pending"
  by (simp_all add: publish_def getImageDataUrl_cases Let_def new_Date_def
      split: option.splits sum.splits)

text \<open>
  How \<open>getPostText\<close> continues after the download, by the outcome of the download and of
  the description step.
\<close>

lemma getPostText_after_download:
  assumes "truthy (bskyHandle e)" and "truthy (bskyPassword e)"
    and "downloadImage e imageUrl (path_join todayFolder imageFileName) (ensureFolder w) =
           (r2, w2)"
  shows "getPostText e w =
     (case r2 of
        Throw err \<Rightarrow>
          (Return ''Error downloading the image.'',
           emit (ConsoleError [Str ''Error downloading the image.'']) w2)
      | Exit c \<Rightarrow> (Exit c, w2)
      | Uncaught err \<Rightarrow> (Uncaught err, w2)
      | Pending \<Rightarrow> (Pending, w2)
      | Return u \<Rightarrow>
          (case getImageDescription e
                  (emit (ConsoleLog [Str (''Image downloaded to: '' @
                                          path_join todayFolder imageFileName)]) w2) of
             (Throw err, w4) \<Rightarrow>
               (Return ''Error getting image description.'',
                emit (ConsoleError [Str ''Error getting image description.'']) w4)
           | (Exit c, w4) \<Rightarrow> (Exit c, w4)
           | (Uncaught err, w4) \<Rightarrow> (Uncaught err, w4)
           | (Pending, w4) \<Rightarrow> (Pending, w4)
           | (Return described, w4) \<Rightarrow>
               publish e (path_join todayFolder imageFileName)
                 (truncateDescription
                    (if described \<noteq> [] then described else ''No description available.''))
                 (emit (ConsoleLog [Str ''Image description received: '',
                                    Str (if described \<noteq> [] then described
                                         else ''No description available.'')]) w4)))"
  using assms by (simp add: getPostText_def Let_def split: outcome.splits prod.splits)

lemma getPostText_no_credentials:
  assumes "\<not> truthy (bskyHandle e) \<or> \<not> truthy (bskyPassword e)"
  shows "getPostText e w =
           (Throw (Error ''Bluesky handle or password is not defined''), ensureFolder w)"
  using assms by (auto simp add: getPostText_def Let_def)

lemma getPostText_exit:
  assumes "getPostText e w = (Exit c, w')"
  shows "c = 1 \<and>
         (\<exists>evs. trace w' = evs @
           [ReadFileSync (path_join todayFolder imageFileName),
            ConsoleError [Str (''Could not read '' @ [CHR 0x27] @
                               path_join todayFolder imageFileName @ [CHR 0x27] @ ''.'')],
            ProcessExit 1])"
proof (cases "truthy (bskyHandle e) \<and> truthy (bskyPassword e)")
  case False
  with assms getPostText_no_credentials [of e w] show ?thesis by auto
next
  case True
  let ?dest = "path_join todayFolder imageFileName"
  obtain r2 w2 where d: "downloadImage e imageUrl ?dest (ensureFolder w) = (r2, w2)"
    by (cases "downloadImage e imageUrl ?dest (ensureFolder w)")
  have "r2 = fst (downloadImage e imageUrl ?dest (ensureFolder w))"
    using d by simp
  then have r2: "r2 \<noteq> Exit c" for c
    by simp
  let ?w3 = "emit (ConsoleLog [Str (''Image downloaded to: '' @ ?dest)]) w2"
  obtain r4 w4 where g: "getImageDescription e ?w3 = (r4, w4)"
    by (cases "getImageDescription e ?w3")
  note step = getPostText_after_download [OF conjunct1 [OF True] conjunct2 [OF True] d]
  show ?thesis
  proof (cases r2)
    case (Return u)
    show ?thesis
    proof (cases r4)
      case (Exit c4)
      with assms step Return g have "c = c4 \<and> w' = w4" by simp
      with getImageDescription_exit [of e ?w3 c4 w4] g Exit show ?thesis by simp
    next
      case (Return described)
      with assms step \<open>r2 = Return u\<close> g
      obtain D w5 where "publish e ?dest D w5 = (Exit c, w')" by simp
      then show ?thesis by (rule publish_exit)
    qed (use assms step Return g in simp_all)
  qed (use assms step r2 in simp_all)
qed

lemma getPostText_uncaught:
  assumes "getPostText e w = (Uncaught err, w')"
  shows "\<exists>loc evs. https_get e loc = Inl (Throws err) \<and>
           trace w' = evs @ [HttpsGet imageUrl, HttpsGet loc]"
proof (cases "truthy (bskyHandle e) \<and> truthy (bskyPassword e)")
  case False
  with assms getPostText_no_credentials [of e w] show ?thesis by auto
next
  case True
  let ?dest = "path_join todayFolder imageFileName"
  obtain r2 w2 where d: "downloadImage e imageUrl ?dest (ensureFolder w) = (r2, w2)"
    by (cases "downloadImage e imageUrl ?dest (ensureFolder w)")
  let ?w3 = "emit (ConsoleLog [Str (''Image downloaded to: '' @ ?dest)]) w2"
  obtain r4 w4 where g: "getImageDescription e ?w3 = (r4, w4)"
    by (cases "getImageDescription e ?w3")
  have "r4 = fst (getImageDescription e ?w3)"
    using g by simp
  then have r4: "r4 \<noteq> Uncaught err"
    by simp
  note step = getPostText_after_download [OF conjunct1 [OF True] conjunct2 [OF True] d]
  show ?thesis
  proof (cases r2)
    case (Uncaught err2)
    with assms step have "err2 = err" and "w' = w2" by simp_all
    with d Uncaught downloadImage_uncaught [of e imageUrl ?dest "ensureFolder w" err w']
    show ?thesis by auto
  next
    case (Return u)
    show ?thesis
    proof (cases r4)
      case (Return described)
      with assms step \<open>r2 = Return u\<close> g
      obtain D w5 where "publish e ?dest D w5 = (Uncaught err, w')" by simp
      then have "fst (publish e ?dest D w5) = Uncaught err" by simp
      then show ?thesis by simp
    qed (use assms step Return g r4 in simp_all)
  qed (use assms step in simp_all)
qed

text \<open>
  C1.  The shortening step leaves every string of length at most 300 unchanged.  A longer
  string becomes a string of length exactly 303 whose first 300 characters are the first 300
  characters of the input and whose last three characters are the ellipsis marker \<open>...\<close>.
\<close>

theorem truncateDescription_spec:
  "(length S \<le> 300 \<longrightarrow> truncateDescription S = S) \<and>
   (length S > 300 \<longrightarrow>
      length (truncateDescription S) = 303 \<and>
      take 300 (truncateDescription S) = take 300 S \<and>
      drop 300 (truncateDescription S) = ''...'')"
  by (simp add: truncateDescription_def maxGraphemes_def)

theorem truncateDescription_spec_witness:
  "truncateDescription ''A cat on a bridge.'' = ''A cat on a bridge.'' \<and>
   length (truncateDescription (replicate 301 CHR ''a'')) = 303 \<and>
   take 300 (truncateDescription (replicate 301 CHR ''a'')) = take 300 (replicate 301 CHR ''a'') \<and>
   drop 300 (truncateDescription (replicate 301 CHR ''a'')) = ''...''"
  using truncateDescription_spec [of "''A cat on a bridge.''"]
        truncateDescription_spec [of "replicate 301 CHR ''a''"]
  by simp



lemma getPostText_404:
  "getPostText (env_ok\<lparr>https_get := respond 404\<rparr>) world0 =
     (Return ''Error downloading the image.'',
      \<lparr>files = Map.empty, dirs = {''today''}, dates = 0,
       trace = [MkdirSync ''today'', HttpsGet imageUrl,
                ConsoleError [Str ''Error downloading the image.'']]\<rparr>)"
  by (simp add: getPostText_def Let_def ensureFolder_def existsSync_def mkdirSync_def emit_def
      downloadImage_def onResponse_def respond_def truthy_def world0_def env_ok_def todayFolder_def)



text \<open>
  C3 (as amended).  When the first request yields a response:
  if its status is 302 and its Location header is a non-empty string, the requests made are
  the first one and exactly one follow-up to that location, and when the follow-up yields a
  response and the write stream does not fail, the operation resolves with the follow-up's
  body stored at the destination;
  if its status is exactly 200, no further request is made and, when the write stream does
  not fail, the operation resolves with the body stored at the destination;
  in every other case (every other status, the other 2xx codes included, and a 302 without
  a usable Location) the operation fails with an error whose message ends with the status
  code, and nothing is written.
\<close>

theorem downloadImage_by_status:
  assumes "https_get e url = Inr r"
  shows "(statusCode r = 302 \<and> truthy (headers_location r) \<longrightarrow>
            gets (trace (snd (downloadImage e url dest w))) =
              gets (trace w) @ [url, string_of (headers_location r)] \<and>
            (\<forall>r2. https_get e (string_of (headers_location r)) = Inr r2 \<and>
                  write_error e dest = None \<longrightarrow>
                  fst (downloadImage e url dest w) = Return () \<and>
                  map_option contents (files (snd (downloadImage e url dest w)) dest) =
                    Some (payload r2))) \<and>
         (statusCode r = 200 \<longrightarrow>
            gets (trace (snd (downloadImage e url dest w))) = gets (trace w) @ [url] \<and>
            (write_error e dest = None \<longrightarrow>
               fst (downloadImage e url dest w) = Return () \<and>
               map_option contents (files (snd (downloadImage e url dest w)) dest) =
                 Some (payload r))) \<and>
         (statusCode r \<noteq> 200 \<and> \<not> (statusCode r = 302 \<and> truthy (headers_location r)) \<longrightarrow>
            downloadImage e url dest w =
              (Throw (Error (''Failed to download image. Status Code: '' @
                             decimal (statusCode r))),
               emit (HttpsGet url) w))"
proof (intro conjI impI allI)
  assume h: "statusCode r = 302 \<and> truthy (headers_location r)"
  show "gets (trace (snd (downloadImage e url dest w))) =
          gets (trace w) @ [url, string_of (headers_location r)]"
    using h by (simp add: downloadImage_redirect [OF assms] gets_saveImageToFile
        split: sum.splits get_failure.splits)
next
  fix r2
  assume h: "statusCode r = 302 \<and> truthy (headers_location r)"
    and ok: "https_get e (string_of (headers_location r)) = Inr r2 \<and> write_error e dest = None"
  from h ok show "fst (downloadImage e url dest w) = Return ()"
    by (simp add: downloadImage_redirect [OF assms] saveImageToFile_finish)
  from h ok show "map_option contents (files (snd (downloadImage e url dest w)) dest) =
                    Some (payload r2)"
    by (simp add: downloadImage_redirect [OF assms] saveImageToFile_finish)
next
  assume h: "statusCode r = 200"
  show "gets (trace (snd (downloadImage e url dest w))) = gets (trace w) @ [url]"
    by (simp add: downloadImage_200 [OF assms h] gets_saveImageToFile)
next
  assume h: "statusCode r = 200" and ok: "write_error e dest = None"
  show "fst (downloadImage e url dest w) = Return ()"
    by (simp add: downloadImage_200 [OF assms h] saveImageToFile_finish [OF ok])
  show "map_option contents (files (snd (downloadImage e url dest w)) dest) = Some (payload r)"
    by (simp add: downloadImage_200 [OF assms h] saveImageToFile_finish [OF ok])
next
  assume h: "statusCode r \<noteq> 200 \<and> \<not> (statusCode r = 302 \<and> truthy (headers_location r))"
  then show "downloadImage e url dest w =
               (Throw (Error (''Failed to download image. Status Code: '' @
                              decimal (statusCode r))),
                emit (HttpsGet url) w)"
    using downloadImage_other [OF assms] by blast
qed

theorem downloadImage_by_status_witness:
  "gets (trace (snd (downloadImage (env_ok\<lparr>https_get := redirect\<rparr>) imageUrl ''f'' world0))) =
     [imageUrl, ''https://cdn.example/a.jpg''] \<and>
   fst (downloadImage (env_ok\<lparr>https_get := redirect\<rparr>) imageUrl ''f'' world0) = Return () \<and>
   map_option contents
     (files (snd (downloadImage (env_ok\<lparr>https_get := redirect\<rparr>) imageUrl ''f'' world0)) ''f'') =
     Some [88] \<and>
   gets (trace (snd (downloadImage env_ok imageUrl ''f'' world0))) = [imageUrl] \<and>
   fst (downloadImage env_ok imageUrl ''f'' world0) = Return () \<and>
   map_option contents (files (snd (downloadImage env_ok imageUrl ''f'' world0)) ''f'') =
     Some [88] \<and>
   downloadImage (env_ok\<lparr>https_get := respond 404\<rparr>) imageUrl ''f'' world0 =
     (Throw (Error ''Failed to download image. Status Code: 404''),
      emit (HttpsGet imageUrl) world0)"
  using downloadImage_by_status [of "env_ok\<lparr>https_get := redirect\<rparr>" imageUrl
          "\<lparr>statusCode = 302, headers_location = Some ''https://cdn.example/a.jpg'',
            payload = []\<rparr>" "''f''" world0]
        downloadImage_by_status [of env_ok imageUrl
          "\<lparr>statusCode = 200, headers_location = None, payload = [88]\<rparr>" "''f''" world0]
        downloadImage_by_status [of "env_ok\<lparr>https_get := respond 404\<rparr>" imageUrl
          "\<lparr>statusCode = 404, headers_location = None, payload = [88]\<rparr>" "''f''" world0]
  by (simp add: env_ok_def redirect_def respond_def world0_def truthy_def string_of_def
      imageUrl_def decimal_404)

text \<open>
  The claim as first stated speaks of any success status.  Status 203 is a success status,
  and the operation fails on it without writing anything.
\<close>

theorem downloadImage_203_counterexample:
  "is_success_status 203 \<and>
   downloadImage (env_ok\<lparr>https_get := respond 203\<rparr>) imageUrl
       (path_join todayFolder imageFileName) world0 =
     (Throw (Error ''Failed to download image. Status Code: 203''),
      emit (HttpsGet imageUrl) world0) \<and>
   files (emit (HttpsGet imageUrl) world0) (path_join todayFolder imageFileName) = None"
  by (simp add: downloadImage_def onResponse_def Let_def respond_def is_success_status_def decimal_203
      world0_def)



text \<open>
  C5.  The claim says what the program sets out to do at lines 71 to 73, and the code
  does not do it.  The reply of the service to a refused request has status 429 and carries
  the error object, with its message \<open>rate limited\<close>, in its body.  Line 71 looks for the
  error object on the response itself and finds none, so nothing is rethrown; the body has
  no choices, and the description step fails with \<open>Unexpected response format\<close> instead of
  the message of the service.
\<close>

theorem service_message_lost:
  "status rate_limited \<noteq> ''200'' \<and>
   map_option (get_property ''message'') (body_error (body rate_limited)) =
     Some (JStr ''rate limited'') \<and>
   handleResponse rate_limited = Throw (Error ''Unexpected response format'') \<and>
   fst (getImageDescription (env_ok\<lparr>chat_completions := (\<lambda>q. Inr rate_limited)\<rparr>) stored_image) =
     Throw (Error ''Unexpected response format'')"
proof -
  have h: "handleResponse rate_limited = Throw (Error ''Unexpected response format'')"
    by (simp add: handleResponse_def carriesErrorMessage_def rate_limited_def)
  have f: "files stored_image (path_join todayFolder imageFileName) =
             Some \<lparr>contents = [88, 0, 255], readable = True\<rparr>"
    by (simp add: stored_image_def world0_def)
  have t: "truthy (token (env_ok\<lparr>chat_completions := (\<lambda>q. Inr rate_limited)\<rparr>))"
    by (simp add: env_ok_def truthy_def)
  have "fst (getImageDescription (env_ok\<lparr>chat_completions := (\<lambda>q. Inr rate_limited)\<rparr>)
               stored_image) = handleResponse rate_limited"
    using getImageDescription_response [OF t f, of rate_limited] by simp
  with h show ?thesis
    by (simp add: rate_limited_def get_property_def)
qed




text \<open>
  C7.  In a run in which acquisition leaves a readable image file, the description step
  returns a description, and login, upload and post creation succeed, \<open>getPostText\<close>
  returns and exactly one post is created.  With \<open>D\<close> the truncated description, the post
  has body text \<open>D\<close> and one embedded image, whose alt text is \<open>D\<close>, whose blob is the
  one the upload returned and whose aspect ratio is 1000 by 500; its creation timestamp is
  the ISO string of the clock reading taken when the post is built.
\<close>

theorem post_of_successful_run:
  assumes "truthy (bskyHandle e)" and "truthy (bskyPassword e)"
    and "downloadImage e imageUrl (path_join todayFolder imageFileName) (ensureFolder w) =
           (Return (), w2)"
    and "files w2 (path_join todayFolder imageFileName) = Some f" and "readable f"
    and "getImageDescription e
           (emit (ConsoleLog [Str (''Image downloaded to: '' @
                                   path_join todayFolder imageFileName)]) w2) = (Return d, w4)"
    and "D = truncateDescription (if d \<noteq> [] then d else ''No description available.'')"
    and "agent_login e (string_of (bskyHandle e)) (string_of (bskyPassword e)) = None"
    and "agent_uploadBlob e (contents f) ''image/jpeg'' = Inr blob"
    and "agent_post e (postRecord D blob (toISOString e (clock e (dates w)))) = None"
  shows "fst (getPostText e w) = Return (D @ [CHR 0x0A] @ ''![Image]('' @ imageUrl @ '')'') \<and>
         posts (trace (snd (getPostText e w))) = posts (trace w) @
           [\<lparr>post_text = D,
             embed = EmbedImages
               [\<lparr>alt = D, image = blob, aspectRatio = \<lparr>width = 1000, height = 500\<rparr>\<rparr>],
             createdAt = toISOString e (clock e (dates w))\<rparr>]"
proof -
  let ?dest = "path_join todayFolder imageFileName"
  let ?w3 = "emit (ConsoleLog [Str (''Image downloaded to: '' @ ?dest)]) w2"
  let ?w5 = "emit (ConsoleLog [Str ''Image description received: '',
               Str (if d \<noteq> [] then d else ''No description available.'')]) w4"
  have w2: "w2 = snd (downloadImage e imageUrl ?dest (ensureFolder w))"
    using assms(3) by simp
  have w4: "w4 = snd (getImageDescription e ?w3)"
    using assms(6) by simp
  have files5: "files ?w5 ?dest = Some f"
    using assms(4) by (simp add: w4)
  have dates4: "dates w4 = dates w"
    by (simp add: w4 w2)
  have posts5: "posts (trace ?w5) = posts (trace w)"
    by (simp add: w4 w2)
  have g: "getPostText e w = publish e ?dest D ?w5"
    using assms(1,2,3,6,7) by (simp add: getPostText_def Let_def)
  have p: "publish e ?dest D ?w5 =
             (Return (D @ [CHR 0x0A] @ ''![Image]('' @ imageUrl @ '')''),
              emit (Post (postRecord D blob (toISOString e (clock e (dates w)))))
                ((emit (UploadBlob (contents f) ''image/jpeg'')
                   (emit (ReadFileSync ?dest)
                      (emit (Login (string_of (bskyHandle e)) (string_of (bskyPassword e)))
                         ?w5)))\<lparr>dates := Suc (dates w)\<rparr>))"
    using assms(9,10)
    by (simp add: publish_after_login [OF files5 assms(5) assms(8)] Let_def dates4)
  show ?thesis
    using posts5 by (simp add: g p postRecord_def)
qed


theorem post_of_successful_run_witness:
  "fst (getPostText env_ok world0) =
     Return (''A cat on a bridge.'' @ [CHR 0x0A] @ ''![Image]('' @ imageUrl @ '')'') \<and>
   posts (trace (snd (getPostText env_ok world0))) =
     [\<lparr>post_text = ''A cat on a bridge.'',
       embed = EmbedImages
         [\<lparr>alt = ''A cat on a bridge.'', image = BlobRef ''cid'',
           aspectRatio = \<lparr>width = 1000, height = 500\<rparr>\<rparr>],
       createdAt = ''1970-01-01T00:00:01.000Z''\<rparr>]"
proof -
  let ?dest = "path_join todayFolder imageFileName"
  let ?f = "\<lparr>contents = [88], readable = True\<rparr>"
  let ?w2 = "snd (downloadImage env_ok imageUrl ?dest (ensureFolder world0))"
  let ?w3 = "emit (ConsoleLog [Str (''Image downloaded to: '' @ ?dest)]) ?w2"
  let ?w4 = "snd (getImageDescription env_ok ?w3)"
  have h1: "truthy (bskyHandle env_ok)" and h2: "truthy (bskyPassword env_ok)"
    and tok: "truthy (token env_ok)"
    by (simp_all add: env_ok_def truthy_def)
  have h3: "downloadImage env_ok imageUrl ?dest (ensureFolder world0) = (Return (), ?w2)"
    by (simp add: downloadImage_def onResponse_def Let_def saveImageToFile_def saveImageToFile_cut_def saveArriving_def env_ok_def)
  have h4: "files ?w2 ?dest = Some ?f"
    by (simp add: downloadImage_def onResponse_def Let_def saveImageToFile_def saveImageToFile_cut_def saveArriving_def env_ok_def
        pipe_file [OF createWriteStream_readable] world0_def)
  have h5: "readable ?f"
    by simp
  have f3: "files ?w3 ?dest = Some ?f"
    using h4 by simp
  have h6: "getImageDescription env_ok ?w3 = (Return ''A cat on a bridge.'', ?w4)"
    using getImageDescription_response [OF tok f3 h5,
        of "choice_response (Some ''A cat on a bridge.'')"]
    by (simp add: env_ok_def choice_response_def choices_response_def handleResponse_def
        carriesErrorMessage_def truthy_def string_of_def)
  have h7: "''A cat on a bridge.'' =
              truncateDescription (if ''A cat on a bridge.'' \<noteq> [] then ''A cat on a bridge.''
                                   else ''No description available.'')"
    by (simp add: truncateDescription_def maxGraphemes_def)
  have h8: "agent_login env_ok (string_of (bskyHandle env_ok)) (string_of (bskyPassword env_ok)) =
              None"
    and h9: "agent_uploadBlob env_ok (contents ?f) ''image/jpeg'' = Inr (BlobRef ''cid'')"
    and h10: "agent_post env_ok
                (postRecord ''A cat on a bridge.'' (BlobRef ''cid'')
                   (toISOString env_ok (clock env_ok (dates world0)))) = None"
    by (simp_all add: env_ok_def)
  from post_of_successful_run [OF h1 h2 h3 h4 h5 h6 h7 h8 h9 h10]
  show ?thesis
    by (simp add: world0_def env_ok_def)
qed


lemma main_unreadable:
  "main env_ok unreadable_image =
     (Exit 1,
      \<lparr>files = [''today/todays_image.jpg'' \<mapsto> \<lparr>contents = [88], readable = False\<rparr>],
       dirs = {''today''}, dates = 0,
       trace =
         [HttpsGet imageUrl, CreateWriteStream ''today/todays_image.jpg'',
          ConsoleLog [Str ''Image downloaded to: today/todays_image.jpg''],
          ReadFileSync ''today/todays_image.jpg'',
          ConsoleError [Str (''Could not read '' @ [CHR 0x27] @ ''today/todays_image.jpg'' @
                             [CHR 0x27] @ ''.'')],
          ProcessExit 1]\<rparr>)"
  by (simp add: main_def getPostText_def Let_def ensureFolder_def existsSync_def mkdirSync_def
      downloadImage_def onResponse_def saveImageToFile_def saveArriving_def
      createWriteStream_def pipe_def emit_def
      getImageDescription_def getImageDataUrl_def readFileSync_def
      truthy_def unreadable_image_def world0_def env_ok_def todayFolder_def path_join_def
      imageFileName_def)

lemma main_relative_redirect:
  "main (env_ok\<lparr>https_get := relative_redirect\<rparr>) world0 =
     (Uncaught (TypeError ''Invalid URL''),
      \<lparr>files = Map.empty, dirs = {''today''}, dates = 0,
       trace = [MkdirSync ''today'', HttpsGet imageUrl, HttpsGet ''/images/a.jpg'']\<rparr>)"
  by (simp add: main_def getPostText_def Let_def ensureFolder_def existsSync_def mkdirSync_def
      downloadImage_def onResponse_def emit_def relative_redirect_def string_of_def
      truthy_def world0_def env_ok_def todayFolder_def imageUrl_def)

lemma getPostText_ok:
  "fst (getPostText env_ok world0) =
     Return (''A cat on a bridge.'' @ [CHR 0x0A] @ ''![Image]('' @ imageUrl @ '')'')"
  by (simp add: getPostText_def Let_def ensureFolder_def existsSync_def mkdirSync_def
      downloadImage_def onResponse_def saveImageToFile_def saveArriving_def
      createWriteStream_def pipe_def emit_def
      getImageDescription_def getImageDataUrl_def readFileSync_def publish_def
      convert_jpg_cons handleResponse_def carriesErrorMessage_def string_of_def new_Date_def
      truncateDescription_def maxGraphemes_def
      truthy_def world0_def env_ok_def todayFolder_def path_join_def
      imageFileName_def)

lemma main_ok: "fst (main env_ok world0) = Return ()"
proof -
  obtain r w1 where g: "getPostText env_ok world0 = (r, w1)"
    by (cases "getPostText env_ok world0")
  with getPostText_ok show ?thesis
    by (simp add: main_def Let_def new_Date_def)
qed



text \<open>
  C9 (as amended).  When the account identifier or the secret is absent or empty,
  \<open>getPostText\<close> throws the configuration error at its start, right after making sure the
  folder exists and before image acquisition and description generation: no request is
  sent, no file is written, nothing is published.  \<open>main\<close> catches the error and logs it.
\<close>

theorem credentials_checked_first:
  assumes "\<not> truthy (bskyHandle e) \<or> \<not> truthy (bskyPassword e)"
  shows "getPostText e w =
           (Throw (Error ''Bluesky handle or password is not defined''), ensureFolder w) \<and>
         filter is_acquisition (trace (ensureFolder w)) = filter is_acquisition (trace w) \<and>
         filter is_publication (trace (ensureFolder w)) = filter is_publication (trace w) \<and>
         main e w =
           (Return (),
            emit (ConsoleError [Str ''Error posting to Bluesky:'',
                                Err (Error ''Bluesky handle or password is not defined'')])
              (ensureFolder w))"
proof -
  have "getPostText e w =
          (Throw (Error ''Bluesky handle or password is not defined''), ensureFolder w)"
    using assms by (auto simp add: getPostText_def Let_def)
  then show ?thesis by (simp add: main_def)
qed

theorem credentials_checked_first_witness:
  "\<not> truthy (bskyPassword (env_ok\<lparr>bskyPassword := None\<rparr>)) \<and>
   getPostText (env_ok\<lparr>bskyPassword := None\<rparr>) world0 =
     (Throw (Error ''Bluesky handle or password is not defined''), ensureFolder world0) \<and>
   filter is_acquisition (trace (ensureFolder world0)) = []"
  using credentials_checked_first [of "env_ok\<lparr>bskyPassword := None\<rparr>" world0]
  by (simp add: truthy_def world0_def)

text \<open>
  The claim as first stated places the error at the publication step, after the earlier
  steps.  With the secret unset and every service ready to answer, the error is thrown when
  the only thing done so far is the creation of the folder.
\<close>

theorem missing_secret_counterexample:
  "bskyPassword (env_ok\<lparr>bskyPassword := None\<rparr>) = None \<and>
   getPostText (env_ok\<lparr>bskyPassword := None\<rparr>) world0 =
     (Throw (Error ''Bluesky handle or password is not defined''), mkdirSync todayFolder world0) \<and>
   trace (mkdirSync todayFolder world0) = [MkdirSync ''today'']"
  by (simp add: getPostText_def Let_def ensureFolder_def existsSync_def mkdirSync_def
      truthy_def world0_def env_ok_def todayFolder_def)

text \<open>
  C10.  Encoding the bytes of the stored image into the data URI and decoding that data URI
  gives the same bytes back, and the bytes handed to the upload are the bytes of the file.
\<close>

theorem data_uri_roundtrip:
  assumes "files w imageFile = Some f" and "readable f"
  shows "fst (getImageDataUrl imageFile ''jpg'' w) =
           Return (''data:image/jpg;base64,'' @ toString_base64 (contents f)) \<and>
         convertDataURIToUint8Array (''data:image/jpg;base64,'' @ toString_base64 (contents f)) =
           Inr (contents f) \<and>
         (agent_login e (string_of (bskyHandle e)) (string_of (bskyPassword e)) = None \<longrightarrow>
            uploads (trace (snd (publish e imageFile D w))) = uploads (trace w) @ [contents f])"
proof (intro conjI impI)
  show "fst (getImageDataUrl imageFile ''jpg'' w) =
          Return (''data:image/jpg;base64,'' @ toString_base64 (contents f))"
    using getImageDataUrl_readable [OF assms, of "''jpg''"] by simp
  show "convertDataURIToUint8Array (''data:image/jpg;base64,'' @ toString_base64 (contents f)) =
          Inr (contents f)"
    by (rule convert_jpg)
next
  assume "agent_login e (string_of (bskyHandle e)) (string_of (bskyPassword e)) = None"
  then show "uploads (trace (snd (publish e imageFile D w))) = uploads (trace w) @ [contents f]"
    by (simp add: publish_after_login [OF assms] Let_def split: sum.splits option.splits)
qed

theorem data_uri_roundtrip_witness:
  "fst (getImageDataUrl (path_join todayFolder imageFileName) ''jpg'' stored_image) =
     Return (''data:image/jpg;base64,'' @ toString_base64 [88, 0, 255]) \<and>
   convertDataURIToUint8Array (''data:image/jpg;base64,'' @ toString_base64 [88, 0, 255]) =
     Inr [88, 0, 255] \<and>
   uploads (trace (snd (publish env_ok (path_join todayFolder imageFileName)
                          ''A cat on a bridge.'' stored_image))) = [[88, 0, 255]]"
  using data_uri_roundtrip [of stored_image "path_join todayFolder imageFileName"
          "\<lparr>contents = [88, 0, 255], readable = True\<rparr>" env_ok "''A cat on a bridge.''"]
  by (simp add: stored_image_def world0_def env_ok_def)

end
